theory Spec2Isabelle
  imports Main "HOL-Library.Sublist"
begin

section \<open>Shared values\<close>

text \<open>
  A JavaScript \<open>Error\<close> is its message. A function that may throw returns
  \<open>error + 'a\<close>, with \<open>Inl\<close> for the thrown error. The clock (\<open>Date.now()\<close>) is a
  number of milliseconds, passed to every function that reads it.
\<close>

datatype error = Error (message: string)

type_synonym millis = nat

text \<open>
  A value that may be \<open>undefined\<close> is an option; JavaScript's truthiness test on such a
  string (\<open>if (!token)\<close>, \<open>a || b\<close>) fails for \<open>undefined\<close> and for the empty string.
\<close>

definition truthy :: "string option \<Rightarrow> bool" where
  "truthy v = (case v of None \<Rightarrow> False | Some s \<Rightarrow> s \<noteq> [])"

section \<open>The jsonwebtoken library\<close>

text \<open>
  The library is not part of the repository. It is modelled symbolically: a token is
  either a string that does not parse as a JWT, or a set of claims together with the
  secret whose HMAC signs it; the signature verifies exactly under that secret. Times
  inside a token are whole seconds: \<open>iat\<close> is the clock divided by 1000 rounded
  down, \<open>exp\<close> is \<open>iat\<close> plus the lifetime, and a token is expired as soon as
  the clock in seconds reaches \<open>exp\<close>.
\<close>

record payload =
  userId :: string
  ptype :: "string option"

record claims = payload +
  iat :: nat
  exp :: nat

datatype jwt = Malformed string | Signed (secret_of: string) (claims_of: claims)

definition jwt_sign :: "payload \<Rightarrow> string option \<Rightarrow> nat \<Rightarrow> millis \<Rightarrow> error + jwt" where
  "jwt_sign p secretOrPrivateKey expiresIn now =
     (case secretOrPrivateKey of
        None \<Rightarrow> Inl (Error ''secretOrPrivateKey must have a value'')
      | Some k \<Rightarrow>
          if k = [] then Inl (Error ''secretOrPrivateKey must have a value'')
          else Inr (Signed k \<lparr>userId = userId p, ptype = ptype p,
                              iat = now div 1000, exp = now div 1000 + expiresIn\<rparr>))"

definition jwt_verify :: "jwt \<Rightarrow> string option \<Rightarrow> millis \<Rightarrow> error + claims" where
  "jwt_verify token secretOrPublicKey now =
     (case token of
        Malformed s \<Rightarrow>
          if s = [] then Inl (Error ''jwt must be provided'') else Inl (Error ''jwt malformed'')
      | Signed k c \<Rightarrow>
          if \<not> truthy secretOrPublicKey then Inl (Error ''secret or public key must be provided'')
          else if secretOrPublicKey \<noteq> Some k then Inl (Error ''invalid signature'')
          else if now div 1000 \<ge> exp c then Inl (Error ''jwt expired'')
          else Inr c)"

section \<open>Auth service (authService.js)\<close>

text \<open>\<open>process.env\<close>: the two signing secrets, each possibly unset.\<close>

record env =
  JWT_SECRET :: "string option"
  JWT_REFRESH_SECRET :: "string option"

text \<open>The lifetimes \<open>'15m'\<close> and \<open>'7d'\<close>, in the seconds the library turns them into.\<close>

definition ACCESS_TOKEN_EXPIRY :: nat where
  "ACCESS_TOKEN_EXPIRY = 15 * 60"

definition REFRESH_TOKEN_EXPIRY :: nat where
  "REFRESH_TOKEN_EXPIRY = 7 * 24 * 60 * 60"

record tokens =
  accessToken :: jwt
  refreshToken :: jwt

definition generateTokens :: "env \<Rightarrow> string \<Rightarrow> millis \<Rightarrow> error + tokens" where
  "generateTokens e uid now =
     (case jwt_sign \<lparr>userId = uid, ptype = None\<rparr> (JWT_SECRET e) ACCESS_TOKEN_EXPIRY now of
        Inl err \<Rightarrow> Inl err
      | Inr a \<Rightarrow>
          (case jwt_sign \<lparr>userId = uid, ptype = Some ''refresh''\<rparr>
                  (JWT_REFRESH_SECRET e) REFRESH_TOKEN_EXPIRY now of
             Inl err \<Rightarrow> Inl err
           | Inr r \<Rightarrow> Inr \<lparr>accessToken = a, refreshToken = r\<rparr>))"

definition verifyAccessToken :: "env \<Rightarrow> jwt \<Rightarrow> millis \<Rightarrow> error + claims" where
  "verifyAccessToken e token now =
     (case jwt_verify token (JWT_SECRET e) now of
        Inl err \<Rightarrow> Inl (Error ''Invalid or expired access token'')
      | Inr decoded \<Rightarrow> Inr decoded)"

definition verifyRefreshToken :: "env \<Rightarrow> jwt \<Rightarrow> millis \<Rightarrow> error + claims" where
  "verifyRefreshToken e token now =
     (case (case jwt_verify token (JWT_REFRESH_SECRET e) now of
              Inl err \<Rightarrow> Inl err
            | Inr decoded \<Rightarrow>
                if ptype decoded \<noteq> Some ''refresh'' then Inl (Error ''Invalid token type'')
                else Inr decoded) of
        Inl err \<Rightarrow> Inl (Error ''Invalid or expired refresh token'')
      | Inr decoded \<Rightarrow> Inr decoded)"

section \<open>The users collection (models/User.js)\<close>

text \<open>
  A stored user, with the fields of the schema; \<open>oid\<close> is the document's \<open>_id\<close> as
  a string and \<open>password\<close> holds the bcrypt hash. The collection is the list of its
  documents; MongoDB keeps their \<open>_id\<close>s distinct.
\<close>

record user =
  oid :: string
  email :: string
  password :: string
  name :: string
  role :: string
  isActive :: bool
  lastLogin :: "millis option"
  createdAt :: millis
  updatedAt :: millis

text \<open>The object the service hands out for a user: the stored fields without the hash.\<close>

record userData =
  data_id :: string
  data_email :: string
  data_name :: string
  data_role :: string
  data_isActive :: bool
  data_createdAt :: millis
  data_updatedAt :: millis

type_synonym users = "user list"

definition findById :: "users \<Rightarrow> string \<Rightarrow> user option" where
  "findById db i = find (\<lambda>u. oid u = i) db"

text \<open>
  The schema declares \<open>email\<close> with \<open>lowercase: true\<close> and \<open>trim: true\<close>. Mongoose
  applies both to the value of a query filter on that path as well, so
  \<open>User.findOne({ email })\<close> looks for the lower-cased, trimmed e-mail. Strings here are
  bytes: \<open>toLowerCase\<close> maps the letters A to Z and \<open>trim\<close> strips the ASCII white
  space (tab, line feed, vertical tab, form feed, carriage return, space) at both ends.
\<close>

definition toLowerCase_char :: "char \<Rightarrow> char" where
  "toLowerCase_char c =
     (case map_of (zip ''ABCDEFGHIJKLMNOPQRSTUVWXYZ'' ''abcdefghijklmnopqrstuvwxyz'') c of
        None \<Rightarrow> c
      | Some l \<Rightarrow> l)"

definition toLowerCase :: "string \<Rightarrow> string" where
  "toLowerCase s = map toLowerCase_char s"

definition is_space :: "char \<Rightarrow> bool" where
  "is_space c = (c \<in> set [CHR 0x09, CHR 0x0A, CHR 0x0B, CHR 0x0C, CHR 0x0D, CHR '' ''])"

definition trim :: "string \<Rightarrow> string" where
  "trim s = rev (dropWhile is_space (rev (dropWhile is_space s)))"

definition cast_email :: "string \<Rightarrow> string" where
  "cast_email e = trim (toLowerCase e)"

definition findOne_email :: "users \<Rightarrow> string \<Rightarrow> user option" where
  "findOne_email db e = find (\<lambda>u. email u = cast_email e) db"

subsection \<open>Token refresh\<close>

definition refreshAccessToken :: "env \<Rightarrow> users \<Rightarrow> jwt \<Rightarrow> millis \<Rightarrow> error + tokens" where
  "refreshAccessToken e db token now =
     (case verifyRefreshToken e token now of
        Inl err \<Rightarrow> Inl err
      | Inr decoded \<Rightarrow>
          (case findById db (userId decoded) of
             None \<Rightarrow> Inl (Error ''User not found'')
           | Some usr \<Rightarrow>
               (case generateTokens e (oid usr) now of
                  Inl err \<Rightarrow> Inl err
                | Inr ts \<Rightarrow> Inr \<lparr>accessToken = accessToken ts, refreshToken = refreshToken ts\<rparr>)))"

subsection \<open>Documents, the pre-save hook and save\<close>

text \<open>
  A Mongoose document is the loaded record together with the paths assigned since it was
  loaded. Assigning a value equal to the stored one does not mark the path. \<open>save\<close>
  runs the schema's pre-save hook, lets the \<open>timestamps\<close> option set \<open>updatedAt\<close>
  when something was modified, and writes the document back under its \<open>_id\<close>; a
  document without modified paths is not written. bcrypt is a parameter.
\<close>

record document =
  doc :: user
  modifiedPaths :: "string list"

record bcrypt =
  bcrypt_genSalt :: "nat \<Rightarrow> string"
  bcrypt_hash :: "string \<Rightarrow> string \<Rightarrow> string"
  bcrypt_compare :: "string \<Rightarrow> string \<Rightarrow> bool"

definition hydrate :: "user \<Rightarrow> document" where
  "hydrate u = \<lparr>doc = u, modifiedPaths = []\<rparr>"

definition isModified :: "document \<Rightarrow> string \<Rightarrow> bool" where
  "isModified d path = (path \<in> set (modifiedPaths d))"

definition set_lastLogin :: "document \<Rightarrow> millis \<Rightarrow> document" where
  "set_lastLogin d t =
     (if lastLogin (doc d) = Some t then d
      else d\<lparr>doc := (doc d)\<lparr>lastLogin := Some t\<rparr>,
             modifiedPaths := ''lastLogin'' # modifiedPaths d\<rparr>)"

definition pre_save :: "bcrypt \<Rightarrow> document \<Rightarrow> document" where
  "pre_save bc d =
     (if \<not> isModified d ''password'' then d
      else d\<lparr>doc := (doc d)\<lparr>password :=
                 bcrypt_hash bc (password (doc d)) (bcrypt_genSalt bc 10)\<rparr>\<rparr>)"

definition comparePassword :: "bcrypt \<Rightarrow> user \<Rightarrow> string \<Rightarrow> bool" where
  "comparePassword bc u candidatePassword = bcrypt_compare bc candidatePassword (password u)"

definition replaceById :: "users \<Rightarrow> user \<Rightarrow> users" where
  "replaceById db u = map (\<lambda>v. if oid v = oid u then u else v) db"

definition save :: "bcrypt \<Rightarrow> users \<Rightarrow> document \<Rightarrow> millis \<Rightarrow> document \<times> users" where
  "save bc db d savedAt =
     (let d1 = pre_save bc d in
      if modifiedPaths d1 = [] then (d1, db)
      else (let u = (doc d1)\<lparr>updatedAt := savedAt\<rparr>
            in (\<lparr>doc = u, modifiedPaths = []\<rparr>, replaceById db u)))"

subsection \<open>Login and lookup\<close>

record login_result =
  result_user :: userData
  result_accessToken :: jwt
  result_refreshToken :: jwt

text \<open>
  \<open>loginUser\<close> reads the clock for \<open>lastLogin\<close> (\<open>now\<close>); the save stamps
  \<open>updatedAt\<close> with its own reading (\<open>savedAt\<close>). The collection is returned with
  the outcome, since the save happens before the tokens are generated.
\<close>

definition loginUser ::
  "bcrypt \<Rightarrow> env \<Rightarrow> users \<Rightarrow> string \<Rightarrow> string \<Rightarrow> millis \<Rightarrow> millis
     \<Rightarrow> (error + login_result) \<times> users" where
  "loginUser bc e db mail pw now savedAt =
     (case findOne_email db mail of
        None \<Rightarrow> (Inl (Error ''Invalid email or password''), db)
      | Some usr \<Rightarrow>
          if isActive usr = False
          then (Inl (Error ''Account is deactivated. Please contact administrator.''), db)
          else if \<not> comparePassword bc usr pw
          then (Inl (Error ''Invalid email or password''), db)
          else
            (let (saved, db') = save bc db (set_lastLogin (hydrate usr) now) savedAt in
             case generateTokens e (oid (doc saved)) now of
               Inl err \<Rightarrow> (Inl err, db')
             | Inr ts \<Rightarrow>
                 (Inr \<lparr>result_user =
                         \<lparr>data_id = oid (doc saved), data_email = email (doc saved),
                          data_name = name (doc saved), data_role = role (doc saved),
                          data_isActive = isActive (doc saved),
                          data_createdAt = createdAt (doc saved),
                          data_updatedAt = updatedAt (doc saved)\<rparr>,
                       result_accessToken = accessToken ts,
                       result_refreshToken = refreshToken ts\<rparr>, db')))"

definition getUserById :: "users \<Rightarrow> string \<Rightarrow> error + userData" where
  "getUserById db i =
     (case findById db i of
        None \<Rightarrow> Inl (Error ''User not found'')
      | Some usr \<Rightarrow>
          Inr \<lparr>data_id = oid usr, data_email = email usr, data_name = name usr,
               data_role = role usr, data_isActive = isActive usr,
               data_createdAt = createdAt usr, data_updatedAt = updatedAt usr\<rparr>)"

section \<open>HTTP requests and responses\<close>

text \<open>
  What arrives from the network: the path, the headers and socket address the code reads,
  the \<open>refreshToken\<close> cookie and the JSON body fields of the auth endpoints. Inside
  Express the request also carries \<open>req.user\<close>, which no parser or global middleware of
  \<open>server.js\<close> sets: it is unset until \<open>protect\<close> assigns the decoded token, and
  \<open>authorize\<close> adds the role and the user data to it.
\<close>

record http_request =
  url :: string
  authorization :: "string option"
  x_forwarded_for :: "string option"
  x_real_ip :: "string option"
  user_agent :: "string option"
  connection_remoteAddress :: "string option"
  socket_remoteAddress :: "string option"
  cookie_refreshToken :: "string option"
  has_body :: bool
  body_email :: "string option"
  body_password :: "string option"
  body_refreshToken :: "string option"

record principal = claims +
  principal_role :: "string option"
  principal_userData :: "userData option"

record request = http_request +
  user :: "principal option"

definition express_request :: "http_request \<Rightarrow> request" where
  "express_request h = http_request.extend h \<lparr>user = None\<rparr>"

datatype cookie_op = NoCookie | SetCookie jwt | ClearCookie

record response =
  res_status :: nat
  res_success :: bool
  res_message :: "string option"
  res_user :: "userData option"
  res_accessToken :: "jwt option"
  res_cookie :: cookie_op

definition failure :: "nat \<Rightarrow> string \<Rightarrow> response" where
  "failure st msg = \<lparr>res_status = st, res_success = False, res_message = Some msg,
                      res_user = None, res_accessToken = None, res_cookie = NoCookie\<rparr>"

text \<open>\<open>error.message || fallback\<close>.\<close>

definition message_or :: "error \<Rightarrow> string \<Rightarrow> string" where
  "message_or err fallback = (if message err \<noteq> [] then message err else fallback)"

section \<open>Auth middleware (authMiddleware.js)\<close>

text \<open>\<open>String.prototype.split\<close> on a one-character separator, and indexing that may miss.\<close>

fun split_on :: "char \<Rightarrow> string \<Rightarrow> string list" where
  "split_on sep [] = [[]]"
| "split_on sep (c # cs) =
     (if c = sep then [] # split_on sep cs
      else (case split_on sep cs of [] \<Rightarrow> [[c]] | w # ws \<Rightarrow> (c # w) # ws))"

fun at_index :: "'a list \<Rightarrow> nat \<Rightarrow> 'a option" where
  "at_index [] i = None"
| "at_index (x # xs) 0 = Some x"
| "at_index (x # xs) (Suc i) = at_index xs i"

definition bearer_token :: "string option \<Rightarrow> string option" where
  "bearer_token hdr =
     (case hdr of
        None \<Rightarrow> None
      | Some a \<Rightarrow>
          if a \<noteq> [] \<and> prefix ''Bearer'' a then at_index (split_on CHR '' '' a) 1 else None)"

datatype step = Responded response | Next request

text \<open>
  The header carries the token as a string; \<open>parse\<close> stands for the library reading
  that string as a JWT, and is a parameter of everything that receives tokens over HTTP.
\<close>

definition protect :: "env \<Rightarrow> (string \<Rightarrow> jwt) \<Rightarrow> request \<Rightarrow> millis \<Rightarrow> step" where
  "protect e parse req now =
     (case bearer_token (authorization req) of
        None \<Rightarrow> Responded (failure 401 ''Not authorized, no token provided'')
      | Some token \<Rightarrow>
          if token = [] then Responded (failure 401 ''Not authorized, no token provided'')
          else
            (case verifyAccessToken e (parse token) now of
               Inl err \<Rightarrow> Responded (failure 401 (message_or err ''Not authorized, token failed''))
             | Inr decoded \<Rightarrow>
                 Next (req\<lparr>user := Some (claims.extend decoded
                         \<lparr>principal_role = None, principal_userData = None\<rparr>)\<rparr>)))"

definition authorize :: "string list \<Rightarrow> users \<Rightarrow> request \<Rightarrow> step" where
  "authorize roles db req =
     (case user req of
        None \<Rightarrow> Responded (failure 403 ''Authorization failed'')
      | Some p \<Rightarrow>
          (case getUserById db (userId p) of
             Inl err \<Rightarrow> Responded (failure 403 ''Authorization failed'')
           | Inr usr \<Rightarrow>
               if data_role usr \<notin> set roles
               then Responded (failure 403
                      (''User role '' @ [CHR 0x27] @ data_role usr @ [CHR 0x27] @
                       '' is not authorized to access this route''))
               else Next (req\<lparr>user := Some (p\<lparr>principal_role := Some (data_role usr),
                                                principal_userData := Some usr\<rparr>)\<rparr>)))"

text \<open>
  A router that mounts \<open>protect\<close> and then \<open>authorize(...roles)\<close> before its handlers, as
  \<open>userRoutes.js\<close> does with the single role \<open>admin\<close>. \<open>Next\<close> means that the
  request reaches the route handler.
\<close>

definition protect_then_authorize ::
  "string list \<Rightarrow> env \<Rightarrow> (string \<Rightarrow> jwt) \<Rightarrow> users \<Rightarrow> http_request \<Rightarrow> millis \<Rightarrow> step" where
  "protect_then_authorize roles e parse db h now =
     (case protect e parse (express_request h) now of
        Responded r \<Rightarrow> Responded r
      | Next req \<Rightarrow> authorize roles db req)"

definition userRoutes :: "env \<Rightarrow> (string \<Rightarrow> jwt) \<Rightarrow> users \<Rightarrow> http_request \<Rightarrow> millis \<Rightarrow> step" where
  "userRoutes = protect_then_authorize [''admin'']"

section \<open>Activity log (activityLogService.js, activityLogger.js)\<close>

text \<open>
  The activity-log collection is the list of its entries. \<open>ActivityLog.create\<close> may
  fail for any reason (schema validation, the database): \<open>write_error\<close> says for which
  entries it does, and with which error, and is a parameter.
\<close>

record logData =
  log_userId :: string
  log_action :: string
  log_entityType :: "string option"
  log_entityId :: "string option"
  log_details :: string
  log_ipAddress :: "string option"
  log_userAgent :: "string option"

definition createActivityLog ::
  "(logData \<Rightarrow> error option) \<Rightarrow> logData list \<Rightarrow> logData \<Rightarrow> error + logData list" where
  "createActivityLog write_error logs entry =
     (case write_error entry of
        Some err \<Rightarrow> Inl err
      | None \<Rightarrow> Inr (logs @ [entry]))"

text \<open>\<open>a || b\<close> on strings that may be undefined.\<close>

definition js_or :: "string option \<Rightarrow> string option \<Rightarrow> string option" where
  "js_or a b = (if truthy a then a else b)"

definition getClientIp :: "request \<Rightarrow> string" where
  "getClientIp req =
     (case js_or (js_or (js_or (case x_forwarded_for req of
                                   None \<Rightarrow> None
                                 | Some v \<Rightarrow> at_index (split_on CHR '','' v) 0)
                               (x_real_ip req))
                        (connection_remoteAddress req))
                 (socket_remoteAddress req) of
        None \<Rightarrow> ''unknown''
      | Some ip \<Rightarrow> if ip = [] then ''unknown'' else ip)"

definition getUserAgent :: "request \<Rightarrow> string" where
  "getUserAgent req =
     (case user_agent req of
        None \<Rightarrow> ''unknown''
      | Some ua \<Rightarrow> if ua = [] then ''unknown'' else ua)"

record activity =
  act_userId :: string
  act_action :: string
  act_entityType :: "string option"
  act_entityId :: "string option"
  act_details :: string
  act_req :: "request option"

text \<open>
  The server's state: the two collections and what was written to the console.
  \<open>logActivity\<close> returns how its promise settles (\<open>Inl\<close> is a rejection) with the
  state it leaves.
\<close>

record server =
  users_db :: users
  activity_logs :: "logData list"
  console :: "string list"

definition logActivity ::
  "(logData \<Rightarrow> error option) \<Rightarrow> server \<Rightarrow> activity \<Rightarrow> (error + unit) \<times> server" where
  "logActivity write_error srv a =
     (case createActivityLog write_error (activity_logs srv)
             \<lparr>log_userId = act_userId a, log_action = act_action a,
              log_entityType = act_entityType a, log_entityId = act_entityId a,
              log_details = act_details a,
              log_ipAddress = (case act_req a of None \<Rightarrow> None
                               | Some req \<Rightarrow> Some (getClientIp req)),
              log_userAgent = (case act_req a of None \<Rightarrow> None
                               | Some req \<Rightarrow> Some (getUserAgent req))\<rparr> of
        Inl err \<Rightarrow>
          (Inr (), srv\<lparr>console := console srv @
                         [''Failed to create activity log: '' @ message err]\<rparr>)
      | Inr logs \<Rightarrow> (Inr (), srv\<lparr>activity_logs := logs\<rparr>))"

section \<open>Auth controller and routes (authController.js, authRoutes.js)\<close>

text \<open>
  A controller returns the response it sends and the state it leaves. The controllers call
  \<open>logActivity\<close> without awaiting it; its effect on the state is applied and its
  settlement is dropped.
\<close>

definition login ::
  "bcrypt \<Rightarrow> env \<Rightarrow> (logData \<Rightarrow> error option) \<Rightarrow> server \<Rightarrow> request \<Rightarrow> millis \<Rightarrow> millis
     \<Rightarrow> response \<times> server" where
  "login bc e write_error srv req now savedAt =
     (if \<not> has_body req
      then (failure 400 (''Request body is missing or invalid. '' @
                         ''Please ensure Content-Type is application/json''), srv)
      else
        (case (body_email req, body_password req) of
           (Some mail, Some pw) \<Rightarrow>
             if mail = [] \<or> pw = [] then (failure 400 ''Email and password are required'', srv)
             else
               (case loginUser bc e (users_db srv) mail pw now savedAt of
                  (Inl err, db') \<Rightarrow>
                    (failure 401 (message_or err ''Login failed''), srv\<lparr>users_db := db'\<rparr>)
                | (Inr result, db') \<Rightarrow>
                    (\<lparr>res_status = 200, res_success = True, res_message = None,
                      res_user = Some (result_user result),
                      res_accessToken = Some (result_accessToken result),
                      res_cookie = SetCookie (result_refreshToken result)\<rparr>,
                     snd (logActivity write_error (srv\<lparr>users_db := db'\<rparr>)
                            \<lparr>act_userId = data_id (result_user result),
                             act_action = ''login'', act_entityType = Some ''auth'',
                             act_entityId = None, act_details = ''{}'',
                             act_req = Some req\<rparr>)))
         | _ \<Rightarrow> (failure 400 ''Email and password are required'', srv)))"

definition refresh ::
  "env \<Rightarrow> (string \<Rightarrow> jwt) \<Rightarrow> server \<Rightarrow> request \<Rightarrow> millis \<Rightarrow> response \<times> server" where
  "refresh e parse srv req now =
     (case js_or (cookie_refreshToken req) (body_refreshToken req) of
        None \<Rightarrow> (failure 401 ''Refresh token is required'', srv)
      | Some token \<Rightarrow>
          if token = [] then (failure 401 ''Refresh token is required'', srv)
          else
            (case refreshAccessToken e (users_db srv) (parse token) now of
               Inl err \<Rightarrow> (failure 401 (message_or err ''Token refresh failed''), srv)
             | Inr ts \<Rightarrow>
                 (\<lparr>res_status = 200, res_success = True, res_message = None,
                   res_user = None, res_accessToken = Some (accessToken ts),
                   res_cookie = SetCookie (refreshToken ts)\<rparr>, srv)))"

definition logout ::
  "(logData \<Rightarrow> error option) \<Rightarrow> server \<Rightarrow> request \<Rightarrow> response \<times> server" where
  "logout write_error srv req =
     (let srv' =
        (case user req of
           None \<Rightarrow> srv
         | Some p \<Rightarrow>
             if userId p = [] then srv
             else snd (logActivity write_error srv
                         \<lparr>act_userId = userId p, act_action = ''logout'',
                          act_entityType = Some ''auth'', act_entityId = None,
                          act_details = ''{}'', act_req = Some req\<rparr>))
      in (\<lparr>res_status = 200, res_success = True,
           res_message = Some ''Logged out successfully'',
           res_user = None, res_accessToken = None, res_cookie = ClearCookie\<rparr>, srv'))"

text \<open>
  The public routes of \<open>authRoutes.js\<close>: \<open>/login\<close>, \<open>/refresh\<close> and \<open>/logout\<close>
  are mounted with their controller alone, so the controller receives the request as
  Express built it.
\<close>

definition post_login ::
  "bcrypt \<Rightarrow> env \<Rightarrow> (logData \<Rightarrow> error option) \<Rightarrow> server \<Rightarrow> http_request \<Rightarrow> millis \<Rightarrow> millis
     \<Rightarrow> response \<times> server" where
  "post_login bc e write_error srv h now savedAt =
     login bc e write_error srv (express_request h) now savedAt"

definition post_refresh ::
  "env \<Rightarrow> (string \<Rightarrow> jwt) \<Rightarrow> server \<Rightarrow> http_request \<Rightarrow> millis \<Rightarrow> response \<times> server" where
  "post_refresh e parse srv h now = refresh e parse srv (express_request h) now"

definition post_logout ::
  "(logData \<Rightarrow> error option) \<Rightarrow> server \<Rightarrow> http_request \<Rightarrow> response \<times> server" where
  "post_logout write_error srv h = logout write_error srv (express_request h)"

section \<open>Client session (utils/storage.ts, authSlice.ts, LoginPage, services/api.ts)\<close>

text \<open>
  The browser: the three local-storage keys of the session and the current path.
\<close>

record browser =
  ACCESS_TOKEN :: "string option"
  REFRESH_TOKEN :: "string option"
  USER :: "string option"
  pathname :: string

definition getAccessToken :: "browser \<Rightarrow> string option" where
  "getAccessToken b = ACCESS_TOKEN b"

definition setAccessToken :: "browser \<Rightarrow> string \<Rightarrow> browser" where
  "setAccessToken b token = b\<lparr>ACCESS_TOKEN := Some token\<rparr>"

definition getRefreshToken :: "browser \<Rightarrow> string option" where
  "getRefreshToken b = REFRESH_TOKEN b"

definition setRefreshToken :: "browser \<Rightarrow> string \<Rightarrow> browser" where
  "setRefreshToken b token = b\<lparr>REFRESH_TOKEN := Some token\<rparr>"

definition clearTokens :: "browser \<Rightarrow> browser" where
  "clearTokens b = b\<lparr>ACCESS_TOKEN := None, REFRESH_TOKEN := None\<rparr>"

definition setUser :: "browser \<Rightarrow> string \<Rightarrow> browser" where
  "setUser b u = b\<lparr>USER := Some u\<rparr>"

definition removeUser :: "browser \<Rightarrow> browser" where
  "removeUser b = b\<lparr>USER := None\<rparr>"

definition clearAuthData :: "browser \<Rightarrow> browser" where
  "clearAuthData b = removeUser (clearTokens b)"

definition redirect_to_login :: "browser \<Rightarrow> browser" where
  "redirect_to_login b = (if pathname b \<noteq> ''/login'' then b\<lparr>pathname := ''/login''\<rparr> else b)"

subsection \<open>The auth slice and the login page\<close>

record auth_state =
  state_user :: "string option"
  state_accessToken :: "string option"
  state_refreshToken :: "string option"
  isAuthenticated :: bool

record credentials =
  cred_user :: string
  cred_accessToken :: string
  cred_refreshToken :: "string option"

definition setCredentials :: "auth_state \<times> browser \<Rightarrow> credentials \<Rightarrow> auth_state \<times> browser" where
  "setCredentials sb payload =
     (let state = (fst sb)\<lparr>state_user := Some (cred_user payload),
                            state_accessToken := Some (cred_accessToken payload),
                            isAuthenticated := True\<rparr>;
          state = (if truthy (cred_refreshToken payload)
                   then state\<lparr>state_refreshToken := cred_refreshToken payload\<rparr> else state);
          b = setAccessToken (setUser (snd sb) (cred_user payload)) (cred_accessToken payload);
          b = (if truthy (cred_refreshToken payload)
               then b\<lparr>REFRESH_TOKEN := cred_refreshToken payload\<rparr> else b)
      in (state, b))"

definition logout_reducer :: "auth_state \<times> browser \<Rightarrow> auth_state \<times> browser" where
  "logout_reducer sb =
     (\<lparr>state_user = None, state_accessToken = None, state_refreshToken = None,
       isAuthenticated = False\<rparr>, clearTokens (removeUser (snd sb)))"

text \<open>
  \<open>LoginPage.onSubmit\<close> on a successful login response: the body's \<open>data\<close> holds the
  user and the access token, these two are what is dispatched, and the page navigates to
  the dashboard.
\<close>

definition onSubmit_success :: "auth_state \<times> browser \<Rightarrow> string \<Rightarrow> string \<Rightarrow> auth_state \<times> browser" where
  "onSubmit_success sb data_user data_token =
     (let (state, b) = setCredentials sb \<lparr>cred_user = data_user,
                         cred_accessToken = data_token, cred_refreshToken = None\<rparr>
      in (state, b\<lparr>pathname := ''/dashboard''\<rparr>))"

subsection \<open>The axios client and its interceptors\<close>

text \<open>
  A request configuration with the fields the interceptors read and write; \<open>cfg_retry\<close>
  is the \<open>_retry\<close> flag. What leaves the browser is either a request sent through
  \<open>apiClient\<close> or the plain \<open>axios.post\<close> to the refresh endpoint with the stored
  refresh token as body. The network answers each send, given the sends before it, with a
  response or with none (no connection, timeout). axios resolves on a 2xx status and
  rejects otherwise.
\<close>

record config =
  cfg_url :: string
  cfg_Authorization :: "string option"
  cfg_retry :: bool

record token_data =
  data_accessToken :: "string option"
  data_refreshToken :: "string option"

record axios_response =
  status :: nat
  data_data :: "token_data option"

datatype sent = ViaClient config | RefreshPost string

datatype client_error = AxiosError "axios_response option" | TypeError

datatype outcome = Resolved axios_response | Rejected client_error

type_synonym network = "sent list \<Rightarrow> sent \<Rightarrow> axios_response option"

fun str_includes :: "string \<Rightarrow> string \<Rightarrow> bool" where
  "str_includes [] sub = (sub = [])"
| "str_includes (c # cs) sub = (prefix sub (c # cs) \<or> str_includes cs sub)"

text \<open>A value interpolated into a template string or stored: \<open>undefined\<close> becomes text.\<close>

definition js_string :: "string option \<Rightarrow> string" where
  "js_string v = (case v of None \<Rightarrow> ''undefined'' | Some s \<Rightarrow> s)"

definition request_interceptor :: "browser \<Rightarrow> config \<Rightarrow> config" where
  "request_interceptor b cfg =
     (case getAccessToken b of
        None \<Rightarrow> cfg
      | Some token \<Rightarrow>
          if token = [] then cfg else cfg\<lparr>cfg_Authorization := Some (''Bearer '' @ token)\<rparr>)"

definition ok_status :: "axios_response \<Rightarrow> bool" where
  "ok_status r = (200 \<le> status r \<and> status r < 300)"

function apiClient :: "network \<Rightarrow> browser \<times> sent list \<Rightarrow> config \<Rightarrow> outcome \<times> browser \<times> sent list" where
  "apiClient net (b, log) cfg =
     (let originalRequest = request_interceptor b cfg;
          log1 = log @ [ViaClient originalRequest]
      in case net log (ViaClient originalRequest) of
           None \<Rightarrow> (Rejected (AxiosError None), b, log1)
         | Some response \<Rightarrow>
             if ok_status response then (Resolved response, b, log1)
             else if status response = 401 \<and> \<not> cfg_retry originalRequest
                     \<and> \<not> str_includes (cfg_url originalRequest) ''/auth/login''
             then
               (case getRefreshToken b of
                  None \<Rightarrow>
                    (Rejected (AxiosError (Some response)),
                     redirect_to_login (clearAuthData b), log1)
                | Some refresh_token \<Rightarrow>
                    if refresh_token = []
                    then (Rejected (AxiosError (Some response)),
                          redirect_to_login (clearAuthData b), log1)
                    else
                      (case net log1 (RefreshPost refresh_token) of
                         None \<Rightarrow>
                           (Rejected (AxiosError None),
                            redirect_to_login (clearAuthData b),
                            log1 @ [RefreshPost refresh_token])
                       | Some r \<Rightarrow>
                           if \<not> ok_status r
                           then (Rejected (AxiosError (Some r)),
                                 redirect_to_login (clearAuthData b),
                                 log1 @ [RefreshPost refresh_token])
                           else
                             (case data_data r of
                                None \<Rightarrow>
                                  (Rejected TypeError,
                                   redirect_to_login (clearAuthData b),
                                   log1 @ [RefreshPost refresh_token])
                              | Some d \<Rightarrow>
                                  apiClient net
                                    (let b1 = setAccessToken b (js_string (data_accessToken d))
                                     in (case data_refreshToken d of
                                           None \<Rightarrow> b1
                                         | Some newRefreshToken \<Rightarrow>
                                             if newRefreshToken = [] then b1
                                             else setRefreshToken b1 newRefreshToken),
                                     log1 @ [RefreshPost refresh_token])
                                    (originalRequest\<lparr>cfg_retry := True,
                                       cfg_Authorization :=
                                         Some (''Bearer '' @ js_string (data_accessToken d))\<rparr>))))
             else (Rejected (AxiosError (Some response)), b, log1))"
  by pat_completeness auto
termination
  by (relation "measure (\<lambda>(net, bl, cfg). if cfg_retry cfg then 0 else 1)")
     (auto simp: request_interceptor_def split: option.splits if_splits)

section \<open>Sample data\<close>

definition demo_env :: env where
  "demo_env = \<lparr>JWT_SECRET = Some ''a'', JWT_REFRESH_SECRET = Some ''r''\<rparr>"

definition alice :: user where
  "alice = \<lparr>oid = ''u1'', email = ''alice@example.com'', password = ''$2a$hash'',
            name = ''Alice'', role = ''viewer'', isActive = True, lastLogin = None,
            createdAt = 1000, updatedAt = 1000\<rparr>"

definition demo_refresh :: "string \<Rightarrow> jwt" where
  "demo_refresh uid = Signed ''r'' \<lparr>userId = uid, ptype = Some ''refresh'', iat = 5,
                                    exp = 604805\<rparr>"

definition demo_access :: "string \<Rightarrow> jwt" where
  "demo_access uid = Signed ''a'' \<lparr>userId = uid, ptype = None, iat = 5, exp = 905\<rparr>"

definition demo_parse :: "string \<Rightarrow> jwt" where
  "demo_parse s =
     (if s = ''access-u1'' then demo_access ''u1''
      else if s = ''refresh-u1'' then demo_refresh ''u1''
      else Malformed s)"

definition demo_http :: "string option \<Rightarrow> http_request" where
  "demo_http auth =
     \<lparr>url = ''/api/users'', authorization = auth, x_forwarded_for = None, x_real_ip = None,
      user_agent = Some ''curl'', connection_remoteAddress = Some ''10.0.0.1'',
      socket_remoteAddress = Some ''10.0.0.1'', cookie_refreshToken = None,
      has_body = False, body_email = None, body_password = None,
      body_refreshToken = None\<rparr>"

definition bob :: user where
  "bob = \<lparr>oid = ''u2'', email = ''bob@example.com'', password = ''$2a$other'',
          name = ''Bob'', role = ''admin'', isActive = True, lastLogin = Some 2000,
          createdAt = 1500, updatedAt = 2000\<rparr>"

definition demo_bcrypt :: bcrypt where
  "demo_bcrypt = \<lparr>bcrypt_genSalt = (\<lambda>rounds. ''$2a$''),
                  bcrypt_hash = (\<lambda>pw salt. salt @ pw),
                  bcrypt_compare = (\<lambda>candidate hashed. hashed = ''$2a$'' @ candidate)\<rparr>"

text \<open>
  A browser with empty storage on the login page, and a network whose server holds the
  access token \<open>access-1\<close> for expired: it answers 401 to a request bearing it, answers
  every refresh post with the new access token \<open>access-2\<close>, and answers 200 to a
  request bearing that one.
\<close>

definition fresh_session :: "auth_state \<times> browser" where
  "fresh_session =
     (\<lparr>state_user = None, state_accessToken = None, state_refreshToken = None,
       isAuthenticated = False\<rparr>,
      \<lparr>ACCESS_TOKEN = None, REFRESH_TOKEN = None, USER = None, pathname = ''/login''\<rparr>)"

definition demo_net :: network where
  "demo_net log s =
     (case s of
        RefreshPost t \<Rightarrow>
          Some \<lparr>status = 200,
                data_data = Some \<lparr>data_accessToken = Some ''access-2'',
                                   data_refreshToken = None\<rparr>\<rparr>
      | ViaClient c \<Rightarrow>
          if cfg_Authorization c = Some ''Bearer access-2''
          then Some \<lparr>status = 200, data_data = None\<rparr>
          else Some \<lparr>status = 401, data_data = None\<rparr>)"

definition get_kpis :: config where
  "get_kpis = \<lparr>cfg_url = ''/dashboard/kpis'', cfg_Authorization = None, cfg_retry = False\<rparr>"

section \<open>Properties of the token service\<close>

lemma jwt_sign_Inr:
  "jwt_sign p s ttl now = Inr t \<longleftrightarrow>
     (\<exists>k. s = Some k \<and> k \<noteq> [] \<and>
          t = Signed k \<lparr>userId = userId p, ptype = ptype p,
                         iat = now div 1000, exp = now div 1000 + ttl\<rparr>)"
  by (auto simp: jwt_sign_def split: option.splits)

lemma generateTokens_Inr:
  "generateTokens e uid now = Inr pair \<longleftrightarrow>
     (\<exists>ka kr. JWT_SECRET e = Some ka \<and> ka \<noteq> [] \<and> JWT_REFRESH_SECRET e = Some kr \<and> kr \<noteq> [] \<and>
        pair = \<lparr>accessToken = Signed ka \<lparr>userId = uid, ptype = None, iat = now div 1000,
                                          exp = now div 1000 + ACCESS_TOKEN_EXPIRY\<rparr>,
                refreshToken = Signed kr \<lparr>userId = uid, ptype = Some ''refresh'',
                                           iat = now div 1000,
                                           exp = now div 1000 + REFRESH_TOKEN_EXPIRY\<rparr>\<rparr>)"
  by (cases "JWT_SECRET e"; cases "JWT_REFRESH_SECRET e")
     (auto simp: generateTokens_def jwt_sign_def)

lemma jwt_verify_Inr:
  "jwt_verify tok s now = Inr c \<longleftrightarrow>
     (\<exists>k. tok = Signed k c \<and> s = Some k \<and> k \<noteq> [] \<and> now div 1000 < exp c)"
  by (cases tok; cases s) (auto simp: jwt_verify_def truthy_def)

lemma verifyAccessToken_Inr:
  "verifyAccessToken e tok now = Inr c \<longleftrightarrow>
     (\<exists>k. tok = Signed k c \<and> JWT_SECRET e = Some k \<and> k \<noteq> [] \<and> now div 1000 < exp c)"
  by (cases tok; cases "JWT_SECRET e")
     (auto simp: verifyAccessToken_def jwt_verify_def truthy_def)

lemma verifyAccessToken_Inl:
  "verifyAccessToken e tok now = Inl err \<Longrightarrow> err = Error ''Invalid or expired access token''"
  by (auto simp: verifyAccessToken_def split: sum.splits)

lemma verifyRefreshToken_Inr:
  "verifyRefreshToken e tok now = Inr c \<longleftrightarrow>
     (\<exists>k. tok = Signed k c \<and> JWT_REFRESH_SECRET e = Some k \<and> k \<noteq> [] \<and> now div 1000 < exp c
          \<and> ptype c = Some ''refresh'')"
  by (cases tok; cases "JWT_REFRESH_SECRET e")
     (auto simp: verifyRefreshToken_def jwt_verify_def truthy_def)

lemma verifyRefreshToken_Inl:
  "verifyRefreshToken e tok now = Inl err \<Longrightarrow> err = Error ''Invalid or expired refresh token''"
  by (auto simp: verifyRefreshToken_def split: sum.splits if_splits)

lemma seconds_before: "t div 1000 < n \<longleftrightarrow> t < 1000 * (n::nat)"
  by (simp add: div_less_iff_less_mult mult.commute)

text \<open>
  Claim C2. Whenever \<open>generateTokens\<close> produces a pair for a subject identifier, the access
  token is accepted by \<open>verifyAccessToken\<close> and the refresh token by \<open>verifyRefreshToken\<close>,
  each decoding to that subject identifier, at every time before the token's expiry; from
  the expiry on, each is rejected. The expiry is the token's \<open>exp\<close> claim: the second of
  issuance plus 15 minutes for the access token and plus 7 days for the refresh token.
\<close>

theorem generateTokens_verified_until_expiry:
  assumes "generateTokens e uid now = Inr pair"
  shows "(t < 1000 * (now div 1000 + 15 * 60) \<longrightarrow>
            (\<exists>c. verifyAccessToken e (accessToken pair) t = Inr c \<and> userId c = uid))
       \<and> (1000 * (now div 1000 + 15 * 60) \<le> t \<longrightarrow>
            verifyAccessToken e (accessToken pair) t = Inl (Error ''Invalid or expired access token''))
       \<and> (t < 1000 * (now div 1000 + 7 * 24 * 60 * 60) \<longrightarrow>
            (\<exists>c. verifyRefreshToken e (refreshToken pair) t = Inr c \<and> userId c = uid))
       \<and> (1000 * (now div 1000 + 7 * 24 * 60 * 60) \<le> t \<longrightarrow>
            verifyRefreshToken e (refreshToken pair) t = Inl (Error ''Invalid or expired refresh token''))"
proof -
  from assms obtain ka kr where
    ka: "JWT_SECRET e = Some ka" "ka \<noteq> []" and
    kr: "JWT_REFRESH_SECRET e = Some kr" "kr \<noteq> []" and
    a: "accessToken pair = Signed ka \<lparr>userId = uid, ptype = None, iat = now div 1000,
                                       exp = now div 1000 + ACCESS_TOKEN_EXPIRY\<rparr>" and
    r: "refreshToken pair = Signed kr \<lparr>userId = uid, ptype = Some ''refresh'',
                                        iat = now div 1000,
                                        exp = now div 1000 + REFRESH_TOKEN_EXPIRY\<rparr>"
    by (auto simp: generateTokens_Inr)
  have acc_ok: "\<exists>c. verifyAccessToken e (accessToken pair) t = Inr c \<and> userId c = uid"
    if "t < 1000 * (now div 1000 + 15 * 60)"
    using that ka a by (simp add: verifyAccessToken_Inr ACCESS_TOKEN_EXPIRY_def seconds_before)
  have acc_no: "verifyAccessToken e (accessToken pair) t = Inl (Error ''Invalid or expired access token'')"
    if "1000 * (now div 1000 + 15 * 60) \<le> t"
  proof (cases "verifyAccessToken e (accessToken pair) t")
    case (Inl err)
    then show ?thesis by (simp add: verifyAccessToken_Inl)
  next
    case (Inr c)
    with that a show ?thesis
      by (auto simp: verifyAccessToken_Inr ACCESS_TOKEN_EXPIRY_def seconds_before)
  qed
  have ref_ok: "\<exists>c. verifyRefreshToken e (refreshToken pair) t = Inr c \<and> userId c = uid"
    if "t < 1000 * (now div 1000 + 7 * 24 * 60 * 60)"
    using that kr r by (simp add: verifyRefreshToken_Inr REFRESH_TOKEN_EXPIRY_def seconds_before)
  have ref_no: "verifyRefreshToken e (refreshToken pair) t = Inl (Error ''Invalid or expired refresh token'')"
    if "1000 * (now div 1000 + 7 * 24 * 60 * 60) \<le> t"
  proof (cases "verifyRefreshToken e (refreshToken pair) t")
    case (Inl err)
    then show ?thesis by (simp add: verifyRefreshToken_Inl)
  next
    case (Inr c)
    with that r show ?thesis
      by (auto simp: verifyRefreshToken_Inr REFRESH_TOKEN_EXPIRY_def seconds_before)
  qed
  from acc_ok acc_no ref_ok ref_no show ?thesis by blast
qed

theorem generateTokens_verified_until_expiry_witness:
  "generateTokens \<lparr>JWT_SECRET = Some ''a'', JWT_REFRESH_SECRET = Some ''r''\<rparr> ''u1'' 5000
     = Inr \<lparr>accessToken = Signed ''a'' \<lparr>userId = ''u1'', ptype = None, iat = 5, exp = 905\<rparr>,
            refreshToken = Signed ''r'' \<lparr>userId = ''u1'', ptype = Some ''refresh'', iat = 5,
                                         exp = 604805\<rparr>\<rparr>
   \<and> (\<exists>c. verifyAccessToken \<lparr>JWT_SECRET = Some ''a'', JWT_REFRESH_SECRET = Some ''r''\<rparr>
            (Signed ''a'' \<lparr>userId = ''u1'', ptype = None, iat = 5, exp = 905\<rparr>) 904999 = Inr c
          \<and> userId c = ''u1'')
   \<and> verifyAccessToken \<lparr>JWT_SECRET = Some ''a'', JWT_REFRESH_SECRET = Some ''r''\<rparr>
        (Signed ''a'' \<lparr>userId = ''u1'', ptype = None, iat = 5, exp = 905\<rparr>) 905000
      = Inl (Error ''Invalid or expired access token'')
   \<and> (\<exists>c. verifyRefreshToken \<lparr>JWT_SECRET = Some ''a'', JWT_REFRESH_SECRET = Some ''r''\<rparr>
            (Signed ''r'' \<lparr>userId = ''u1'', ptype = Some ''refresh'', iat = 5, exp = 604805\<rparr>)
            604804999 = Inr c
          \<and> userId c = ''u1'')
   \<and> verifyRefreshToken \<lparr>JWT_SECRET = Some ''a'', JWT_REFRESH_SECRET = Some ''r''\<rparr>
        (Signed ''r'' \<lparr>userId = ''u1'', ptype = Some ''refresh'', iat = 5, exp = 604805\<rparr>)
        604805000
      = Inl (Error ''Invalid or expired refresh token'')"
proof -
  let ?e = "\<lparr>JWT_SECRET = Some ''a'', JWT_REFRESH_SECRET = Some ''r''\<rparr>"
  let ?p = "\<lparr>accessToken = Signed ''a'' \<lparr>userId = ''u1'', ptype = None, iat = 5, exp = 905\<rparr>,
            refreshToken = Signed ''r'' \<lparr>userId = ''u1'', ptype = Some ''refresh'', iat = 5,
                                         exp = 604805\<rparr>\<rparr>"
  have g: "generateTokens ?e ''u1'' 5000 = Inr ?p"
    by (simp add: generateTokens_def jwt_sign_def ACCESS_TOKEN_EXPIRY_def REFRESH_TOKEN_EXPIRY_def)
  show ?thesis
    using g generateTokens_verified_until_expiry [OF g, of 904999]
      generateTokens_verified_until_expiry [OF g, of 905000]
      generateTokens_verified_until_expiry [OF g, of 604804999]
      generateTokens_verified_until_expiry [OF g, of 604805000]
    by simp
qed

text \<open>
  Claim C3. When the access-token secret and the refresh-token secret differ, the access
  token of an issued pair is rejected by \<open>verifyRefreshToken\<close> and the refresh token of the
  pair is rejected by \<open>verifyAccessToken\<close>, each with the verifier's invalid-token error and
  at every time.
\<close>

theorem token_type_confusion_rejected:
  assumes "generateTokens e uid now = Inr pair"
    and "JWT_SECRET e \<noteq> JWT_REFRESH_SECRET e"
  shows "verifyRefreshToken e (accessToken pair) t = Inl (Error ''Invalid or expired refresh token'')
       \<and> verifyAccessToken e (refreshToken pair) t = Inl (Error ''Invalid or expired access token'')"
proof -
  from assms(1) obtain ka kr where
    ka: "JWT_SECRET e = Some ka" and kr: "JWT_REFRESH_SECRET e = Some kr" and
    a: "accessToken pair = Signed ka \<lparr>userId = uid, ptype = None, iat = now div 1000,
                                       exp = now div 1000 + ACCESS_TOKEN_EXPIRY\<rparr>" and
    r: "refreshToken pair = Signed kr \<lparr>userId = uid, ptype = Some ''refresh'',
                                        iat = now div 1000,
                                        exp = now div 1000 + REFRESH_TOKEN_EXPIRY\<rparr>"
    by (auto simp: generateTokens_Inr)
  have "verifyRefreshToken e (accessToken pair) t = Inl (Error ''Invalid or expired refresh token'')"
  proof (cases "verifyRefreshToken e (accessToken pair) t")
    case (Inl err)
    then show ?thesis by (simp add: verifyRefreshToken_Inl)
  next
    case (Inr c)
    with a show ?thesis by (auto simp: verifyRefreshToken_Inr)
  qed
  moreover
  have "verifyAccessToken e (refreshToken pair) t = Inl (Error ''Invalid or expired access token'')"
  proof (cases "verifyAccessToken e (refreshToken pair) t")
    case (Inl err)
    then show ?thesis by (simp add: verifyAccessToken_Inl)
  next
    case (Inr c)
    with r kr assms(2) show ?thesis by (auto simp: verifyAccessToken_Inr)
  qed
  ultimately show ?thesis by simp
qed

theorem token_type_confusion_rejected_witness:
  "generateTokens \<lparr>JWT_SECRET = Some ''a'', JWT_REFRESH_SECRET = Some ''r''\<rparr> ''u1'' 5000
     = Inr \<lparr>accessToken = Signed ''a'' \<lparr>userId = ''u1'', ptype = None, iat = 5, exp = 905\<rparr>,
            refreshToken = Signed ''r'' \<lparr>userId = ''u1'', ptype = Some ''refresh'', iat = 5,
                                         exp = 604805\<rparr>\<rparr>
   \<and> JWT_SECRET \<lparr>JWT_SECRET = Some ''a'', JWT_REFRESH_SECRET = Some ''r''\<rparr>
       \<noteq> JWT_REFRESH_SECRET \<lparr>JWT_SECRET = Some ''a'', JWT_REFRESH_SECRET = Some ''r''\<rparr>
   \<and> verifyRefreshToken \<lparr>JWT_SECRET = Some ''a'', JWT_REFRESH_SECRET = Some ''r''\<rparr>
        (Signed ''a'' \<lparr>userId = ''u1'', ptype = None, iat = 5, exp = 905\<rparr>) 6000
      = Inl (Error ''Invalid or expired refresh token'')
   \<and> verifyAccessToken \<lparr>JWT_SECRET = Some ''a'', JWT_REFRESH_SECRET = Some ''r''\<rparr>
        (Signed ''r'' \<lparr>userId = ''u1'', ptype = Some ''refresh'', iat = 5, exp = 604805\<rparr>) 6000
      = Inl (Error ''Invalid or expired access token'')"
proof -
  let ?e = "\<lparr>JWT_SECRET = Some ''a'', JWT_REFRESH_SECRET = Some ''r''\<rparr>"
  have g: "generateTokens ?e ''u1'' 5000
     = Inr \<lparr>accessToken = Signed ''a'' \<lparr>userId = ''u1'', ptype = None, iat = 5, exp = 905\<rparr>,
            refreshToken = Signed ''r'' \<lparr>userId = ''u1'', ptype = Some ''refresh'', iat = 5,
                                         exp = 604805\<rparr>\<rparr>"
    by (simp add: generateTokens_def jwt_sign_def ACCESS_TOKEN_EXPIRY_def REFRESH_TOKEN_EXPIRY_def)
  have d: "JWT_SECRET ?e \<noteq> JWT_REFRESH_SECRET ?e" by simp
  show ?thesis
    using g d token_type_confusion_rejected [OF g d, of 6000] by simp
qed

text \<open>
  Claim C4. \<open>refreshAccessToken\<close> first verifies its input as a refresh token: a
  malformed token, one signed with another secret, an expired one or one whose type is not
  \<open>refresh\<close> fails with the generic invalid-or-expired error, as does every input the
  verifier rejects. When verification succeeds and no user has the token's subject
  identifier, it fails with \<open>User not found\<close>. Otherwise its result is that of
  \<open>generateTokens\<close> for that user at the time of the call: with the access-token secret
  configured this is a newly issued pair, and the access token of that pair verifies and
  decodes to the subject of the presented token.
\<close>

theorem refreshAccessToken_outcomes:
  "(verifyRefreshToken e tok now = Inl err \<longrightarrow>
      refreshAccessToken e db tok now = Inl (Error ''Invalid or expired refresh token''))
 \<and> ((tok = Malformed s \<or>
      tok = Signed k c \<and> (JWT_REFRESH_SECRET e \<noteq> Some k \<or> exp c \<le> now div 1000 \<or>
                          ptype c \<noteq> Some ''refresh'')) \<longrightarrow>
      refreshAccessToken e db tok now = Inl (Error ''Invalid or expired refresh token''))
 \<and> (verifyRefreshToken e tok now = Inr d \<and> findById db (userId d) = None \<longrightarrow>
      refreshAccessToken e db tok now = Inl (Error ''User not found''))
 \<and> (verifyRefreshToken e tok now = Inr d \<and> findById db (userId d) = Some u \<longrightarrow>
      refreshAccessToken e db tok now = generateTokens e (oid u) now \<and> oid u = userId d)
 \<and> (verifyRefreshToken e tok now = Inr d \<and> findById db (userId d) = Some u \<and>
      truthy (JWT_SECRET e) \<longrightarrow>
      (\<exists>pair. refreshAccessToken e db tok now = Inr pair \<and>
              generateTokens e (oid u) now = Inr pair \<and>
              (\<exists>a. verifyAccessToken e (accessToken pair) now = Inr a \<and> userId a = userId d)))"
proof -
  have rejected: "refreshAccessToken e db tok now = Inl (Error ''Invalid or expired refresh token'')"
    if "verifyRefreshToken e tok now = Inl x" for x
    using that by (simp add: refreshAccessToken_def verifyRefreshToken_Inl)
  have bad: "refreshAccessToken e db tok now = Inl (Error ''Invalid or expired refresh token'')"
    if b: "tok = Malformed s \<or>
      tok = Signed k c \<and> (JWT_REFRESH_SECRET e \<noteq> Some k \<or> exp c \<le> now div 1000 \<or>
                          ptype c \<noteq> Some ''refresh'')"
  proof (cases "verifyRefreshToken e tok now")
    case (Inl x)
    then show ?thesis by (rule rejected)
  next
    case (Inr x)
    with b show ?thesis by (auto simp: verifyRefreshToken_Inr)
  qed
  have missing: "refreshAccessToken e db tok now = Inl (Error ''User not found'')"
    if "verifyRefreshToken e tok now = Inr d \<and> findById db (userId d) = None"
    using that by (simp add: refreshAccessToken_def)
  have reissue: "refreshAccessToken e db tok now = generateTokens e (oid u) now \<and> oid u = userId d"
    if h: "verifyRefreshToken e tok now = Inr d \<and> findById db (userId d) = Some u"
  proof -
    from h have "find (\<lambda>v. oid v = userId d) db = Some u" by (simp add: findById_def)
    then have "oid u = userId d" by (auto simp: find_Some_iff)
    moreover from h have "refreshAccessToken e db tok now = generateTokens e (oid u) now"
      by (simp add: refreshAccessToken_def split: sum.splits)
    ultimately show ?thesis by simp
  qed
  have fresh: "\<exists>pair. refreshAccessToken e db tok now = Inr pair \<and>
              generateTokens e (oid u) now = Inr pair \<and>
              (\<exists>a. verifyAccessToken e (accessToken pair) now = Inr a \<and> userId a = userId d)"
    if h: "verifyRefreshToken e tok now = Inr d \<and> findById db (userId d) = Some u \<and>
      truthy (JWT_SECRET e)"
  proof -
    from h obtain kr where kr: "JWT_REFRESH_SECRET e = Some kr" "kr \<noteq> []"
      by (auto simp: verifyRefreshToken_Inr)
    from h obtain ka where ka: "JWT_SECRET e = Some ka" "ka \<noteq> []"
      by (auto simp: truthy_def split: option.splits)
    from h reissue have same: "oid u = userId d"
      and r: "refreshAccessToken e db tok now = generateTokens e (oid u) now"
      by simp_all
    define pair where "pair = \<lparr>accessToken = Signed ka \<lparr>userId = oid u, ptype = None,
          iat = now div 1000, exp = now div 1000 + ACCESS_TOKEN_EXPIRY\<rparr>,
        refreshToken = Signed kr \<lparr>userId = oid u, ptype = Some ''refresh'',
          iat = now div 1000, exp = now div 1000 + REFRESH_TOKEN_EXPIRY\<rparr>\<rparr>"
    have g: "generateTokens e (oid u) now = Inr pair"
      using ka kr by (simp add: generateTokens_Inr pair_def)
    have v: "\<exists>a. verifyAccessToken e (accessToken pair) now = Inr a \<and> userId a = userId d"
      using ka same by (simp add: verifyAccessToken_Inr pair_def ACCESS_TOKEN_EXPIRY_def)
    from g r v show ?thesis by simp
  qed
  from rejected bad missing reissue fresh show ?thesis by blast
qed

theorem refreshAccessToken_outcomes_witness:
  "(verifyRefreshToken demo_env (Malformed ''junk'') 6000
      = Inl (Error ''Invalid or expired refresh token'')
    \<and> refreshAccessToken demo_env [alice] (Malformed ''junk'') 6000
      = Inl (Error ''Invalid or expired refresh token''))
 \<and> (ptype (claims_of (demo_access ''u1'')) \<noteq> Some ''refresh''
    \<and> refreshAccessToken demo_env [alice] (demo_access ''u1'') 6000
      = Inl (Error ''Invalid or expired refresh token''))
 \<and> (verifyRefreshToken demo_env (demo_refresh ''u2'') 6000
      = Inr (claims_of (demo_refresh ''u2''))
    \<and> findById [alice] ''u2'' = None
    \<and> refreshAccessToken demo_env [alice] (demo_refresh ''u2'') 6000
      = Inl (Error ''User not found''))
 \<and> (verifyRefreshToken demo_env (demo_refresh ''u1'') 6000
      = Inr (claims_of (demo_refresh ''u1''))
    \<and> findById [alice] ''u1'' = Some alice \<and> truthy (JWT_SECRET demo_env)
    \<and> (\<exists>pair. refreshAccessToken demo_env [alice] (demo_refresh ''u1'') 6000 = Inr pair \<and>
          generateTokens demo_env ''u1'' 6000 = Inr pair \<and>
          (\<exists>a. verifyAccessToken demo_env (accessToken pair) 6000 = Inr a \<and> userId a = ''u1'')))"
proof -
  have v1: "verifyRefreshToken demo_env (Malformed ''junk'') 6000
      = Inl (Error ''Invalid or expired refresh token'')"
    by (simp add: verifyRefreshToken_def jwt_verify_def demo_env_def)
  have v2: "demo_access ''u1'' = Signed ''a'' (claims_of (demo_access ''u1''))
      \<and> ptype (claims_of (demo_access ''u1'')) \<noteq> Some ''refresh''"
    by (simp add: demo_access_def)
  have v3: "verifyRefreshToken demo_env (demo_refresh ''u2'') 6000
      = Inr (claims_of (demo_refresh ''u2''))"
    by (simp add: verifyRefreshToken_def jwt_verify_def demo_env_def demo_refresh_def truthy_def)
  have f3: "findById [alice] (userId (claims_of (demo_refresh ''u2''))) = None"
    by (simp add: findById_def alice_def demo_refresh_def)
  have v4: "verifyRefreshToken demo_env (demo_refresh ''u1'') 6000
      = Inr (claims_of (demo_refresh ''u1''))"
    by (simp add: verifyRefreshToken_def jwt_verify_def demo_env_def demo_refresh_def truthy_def)
  have f4: "findById [alice] (userId (claims_of (demo_refresh ''u1''))) = Some alice"
    by (simp add: findById_def alice_def demo_refresh_def)
  have t4: "truthy (JWT_SECRET demo_env)"
    by (simp add: truthy_def demo_env_def)
  have id1: "oid alice = ''u1''" "userId (claims_of (demo_refresh ''u1'')) = ''u1''"
    "userId (claims_of (demo_refresh ''u2'')) = ''u2''"
    by (simp_all add: alice_def demo_refresh_def)
  note thm1 = refreshAccessToken_outcomes
    [where e = demo_env and db = "[alice]" and now = 6000 and tok = "Malformed ''junk''"
       and err = "Error ''Invalid or expired refresh token''"]
  note thm2 = refreshAccessToken_outcomes
    [where e = demo_env and db = "[alice]" and now = 6000 and tok = "demo_access ''u1''"
       and k = "''a''" and c = "claims_of (demo_access ''u1'')"]
  note thm3 = refreshAccessToken_outcomes
    [where e = demo_env and db = "[alice]" and now = 6000 and tok = "demo_refresh ''u2''"
       and d = "claims_of (demo_refresh ''u2'')"]
  note thm4 = refreshAccessToken_outcomes
    [where e = demo_env and db = "[alice]" and now = 6000 and tok = "demo_refresh ''u1''"
       and d = "claims_of (demo_refresh ''u1'')" and u = alice]
  from thm1 v1 have c1: "refreshAccessToken demo_env [alice] (Malformed ''junk'') 6000
      = Inl (Error ''Invalid or expired refresh token'')" by blast
  from thm2 v2 have c2: "refreshAccessToken demo_env [alice] (demo_access ''u1'') 6000
      = Inl (Error ''Invalid or expired refresh token'')" by blast
  from thm3 v3 f3 have c3: "refreshAccessToken demo_env [alice] (demo_refresh ''u2'') 6000
      = Inl (Error ''User not found'')" by blast
  from thm4 v4 f4 t4 have c4:
    "\<exists>pair. refreshAccessToken demo_env [alice] (demo_refresh ''u1'') 6000 = Inr pair \<and>
          generateTokens demo_env (oid alice) 6000 = Inr pair \<and>
          (\<exists>a. verifyAccessToken demo_env (accessToken pair) 6000 = Inr a \<and>
               userId a = userId (claims_of (demo_refresh ''u1'')))" by blast
  from v1 c1 v2 c2 v3 f3 c3 v4 f4 t4 c4 show ?thesis
    by (simp add: id1)
qed

section \<open>Properties of the middleware\<close>

lemma express_request_fields [simp]:
  "authorization (express_request h) = authorization h"
  "user (express_request h) = None"
  by (simp_all add: express_request_def http_request.defs)

lemma split_on_no_sep: "sep \<notin> set w \<Longrightarrow> split_on sep w = [w]"
  by (induction w) auto

lemma split_on_first:
  "sep \<notin> set w \<Longrightarrow> split_on sep (w @ sep # rest) = w # split_on sep rest"
  by (induction w) auto

text \<open>The standard header \<open>Bearer <token>\<close> yields the token; a missing header yields none.\<close>

lemma bearer_token_standard:
  "CHR '' '' \<notin> set tok \<Longrightarrow> bearer_token (Some (''Bearer '' @ tok)) = Some tok"
proof -
  assume ns: "CHR '' '' \<notin> set tok"
  have "split_on CHR '' '' (''Bearer'' @ CHR '' '' # tok) = ''Bearer'' # split_on CHR '' '' tok"
    by (rule split_on_first) simp
  with ns show ?thesis
    by (simp add: bearer_token_def split_on_no_sep)
qed

lemma bearer_token_absent: "bearer_token None = None"
  by (simp add: bearer_token_def)

text \<open>
  Claim C5. \<open>protect\<close> answers 401 \<open>Not authorized, no token provided\<close> when the
  Authorization header yields no bearer token (none or an empty one). When a token is
  present and \<open>verifyAccessToken\<close> fails, it answers 401 with the verifier's message,
  \<open>Invalid or expired access token\<close>. When verification succeeds, it passes the request
  on with the decoded token, which holds the subject identifier, as \<open>req.user\<close>.
\<close>

theorem protect_outcomes:
  "((bearer_token (authorization req) = None \<or> bearer_token (authorization req) = Some []) \<longrightarrow>
      protect e parse req now = Responded (failure 401 ''Not authorized, no token provided''))
 \<and> (bearer_token (authorization req) = Some tok \<and> tok \<noteq> [] \<and>
      verifyAccessToken e (parse tok) now = Inl err \<longrightarrow>
      protect e parse req now = Responded (failure 401 ''Invalid or expired access token''))
 \<and> (bearer_token (authorization req) = Some tok \<and> tok \<noteq> [] \<and>
      verifyAccessToken e (parse tok) now = Inr d \<longrightarrow>
      protect e parse req now =
        Next (req\<lparr>user := Some (claims.extend d
                      \<lparr>principal_role = None, principal_userData = None\<rparr>)\<rparr>) \<and>
      userId (claims.extend d \<lparr>principal_role = None, principal_userData = None\<rparr>) = userId d)"
proof (intro conjI impI)
  assume "bearer_token (authorization req) = None \<or> bearer_token (authorization req) = Some []"
  then show "protect e parse req now = Responded (failure 401 ''Not authorized, no token provided'')"
    by (auto simp: protect_def)
next
  assume h: "bearer_token (authorization req) = Some tok \<and> tok \<noteq> [] \<and>
      verifyAccessToken e (parse tok) now = Inl err"
  then have "err = Error ''Invalid or expired access token''"
    by (auto dest: verifyAccessToken_Inl)
  with h show "protect e parse req now = Responded (failure 401 ''Invalid or expired access token'')"
    by (simp add: protect_def message_or_def)
next
  assume h: "bearer_token (authorization req) = Some tok \<and> tok \<noteq> [] \<and>
      verifyAccessToken e (parse tok) now = Inr d"
  then have "protect e parse req now =
      Next (req\<lparr>user := Some (claims.extend d
                  \<lparr>principal_role = None, principal_userData = None\<rparr>)\<rparr>)"
    by (simp add: protect_def)
  then show "protect e parse req now =
        Next (req\<lparr>user := Some (claims.extend d
                      \<lparr>principal_role = None, principal_userData = None\<rparr>)\<rparr>)" .
next
  show "userId (claims.extend d \<lparr>principal_role = None, principal_userData = None\<rparr>) = userId d"
    by (simp add: claims.defs)
qed

theorem protect_outcomes_witness:
  "(bearer_token (authorization (express_request (demo_http None))) = None
    \<and> protect demo_env demo_parse (express_request (demo_http None)) 6000
        = Responded (failure 401 ''Not authorized, no token provided''))
 \<and> (bearer_token (authorization (express_request (demo_http (Some ''Bearer forged''))))
        = Some ''forged''
    \<and> verifyAccessToken demo_env (demo_parse ''forged'') 6000
        = Inl (Error ''Invalid or expired access token'')
    \<and> protect demo_env demo_parse (express_request (demo_http (Some ''Bearer forged''))) 6000
        = Responded (failure 401 ''Invalid or expired access token''))
 \<and> (bearer_token (authorization (express_request (demo_http (Some ''Bearer access-u1''))))
        = Some ''access-u1''
    \<and> verifyAccessToken demo_env (demo_parse ''access-u1'') 6000
        = Inr (claims_of (demo_access ''u1''))
    \<and> (\<exists>req'. protect demo_env demo_parse
                 (express_request (demo_http (Some ''Bearer access-u1''))) 6000 = Next req'
              \<and> map_option userId (user req') = Some ''u1''))"
proof -
  let ?none = "express_request (demo_http None)"
  let ?forged = "express_request (demo_http (Some ''Bearer forged''))"
  let ?good = "express_request (demo_http (Some ''Bearer access-u1''))"
  have b1: "bearer_token (authorization ?none) = None"
    by (simp add: demo_http_def bearer_token_def)
  have b2: "bearer_token (authorization ?forged) = Some ''forged''"
    by (simp add: demo_http_def bearer_token_def)
  have v2: "verifyAccessToken demo_env (demo_parse ''forged'') 6000
        = Inl (Error ''Invalid or expired access token'')"
    by (simp add: verifyAccessToken_def jwt_verify_def demo_parse_def)
  have b3: "bearer_token (authorization ?good) = Some ''access-u1''"
    by (simp add: demo_http_def bearer_token_def)
  have v3: "verifyAccessToken demo_env (demo_parse ''access-u1'') 6000
        = Inr (claims_of (demo_access ''u1''))"
    by (simp add: verifyAccessToken_def jwt_verify_def demo_parse_def demo_access_def
        demo_env_def truthy_def)
  note t1 = protect_outcomes [where req = ?none and e = demo_env and parse = demo_parse
      and now = 6000]
  note t2 = protect_outcomes [where req = ?forged and e = demo_env and parse = demo_parse
      and now = 6000 and tok = "''forged''"
      and err = "Error ''Invalid or expired access token''"]
  note t3 = protect_outcomes [where req = ?good and e = demo_env and parse = demo_parse
      and now = 6000 and tok = "''access-u1''" and d = "claims_of (demo_access ''u1'')"]
  from t1 b1 have c1: "protect demo_env demo_parse ?none 6000
        = Responded (failure 401 ''Not authorized, no token provided'')" by blast
  from t2 b2 v2 have c2: "protect demo_env demo_parse ?forged 6000
        = Responded (failure 401 ''Invalid or expired access token'')" by simp
  from t3 b3 v3 have c3: "protect demo_env demo_parse ?good 6000
        = Next (?good\<lparr>user := Some (claims.extend (claims_of (demo_access ''u1''))
                      \<lparr>principal_role = None, principal_userData = None\<rparr>)\<rparr>)" by simp
  have u3: "userId (claims.extend (claims_of (demo_access ''u1''))
                      \<lparr>principal_role = None, principal_userData = None\<rparr>) = ''u1''"
    by (simp add: claims.defs demo_access_def)
  from b1 c1 b2 v2 c2 b3 v3 c3 u3 show ?thesis by simp
qed

text \<open>
  Claim C6. On a route behind \<open>protect\<close> and \<open>authorize\<close>, a request whose access token
  verifies, for a subject whose stored role is not among the roles the route allows, is
  answered 403 by \<open>authorize\<close>, which looks the user up by the subject identifier of the
  verified token; the request does not reach the route handler. The user routes allow
  the role \<open>admin\<close> only.
\<close>

theorem role_outside_allowed_set_forbidden:
  assumes "bearer_token (authorization h) = Some tok" and "tok \<noteq> []"
    and "verifyAccessToken e (parse tok) now = Inr d"
    and "findById db (userId d) = Some u"
    and "role u \<notin> set roles"
  shows "protect_then_authorize roles e parse db h now =
           Responded (failure 403 (''User role '' @ [CHR 0x27] @ role u @ [CHR 0x27] @
                                   '' is not authorized to access this route''))
       \<and> (\<forall>req. protect_then_authorize roles e parse db h now \<noteq> Next req)
       \<and> (role u \<noteq> ''admin'' \<longrightarrow>
            userRoutes e parse db h now =
              Responded (failure 403 (''User role '' @ [CHR 0x27] @ role u @ [CHR 0x27] @
                                      '' is not authorized to access this route'')))"
proof -
  have p: "protect e parse (express_request h) now =
      Next ((express_request h)\<lparr>user := Some (claims.extend d
                  \<lparr>principal_role = None, principal_userData = None\<rparr>)\<rparr>)"
    using assms(1-3) by (simp add: protect_def)
  have uid: "userId (claims.extend d \<lparr>principal_role = None, principal_userData = None\<rparr>)
      = userId d"
    by (simp add: claims.defs)
  have a: "authorize rs db ((express_request h)\<lparr>user := Some (claims.extend d
                  \<lparr>principal_role = None, principal_userData = None\<rparr>)\<rparr>) =
      Responded (failure 403 (''User role '' @ [CHR 0x27] @ role u @ [CHR 0x27] @
                              '' is not authorized to access this route''))"
    if "role u \<notin> set rs" for rs
    using that assms(4) by (simp add: authorize_def getUserById_def uid)
  have main: "protect_then_authorize rs e parse db h now =
      Responded (failure 403 (''User role '' @ [CHR 0x27] @ role u @ [CHR 0x27] @
                              '' is not authorized to access this route''))"
    if "role u \<notin> set rs" for rs
    using that p a by (simp add: protect_then_authorize_def)
  from main [OF assms(5)] main [of "[''admin'']"] show ?thesis
    by (simp add: userRoutes_def)
qed

theorem role_outside_allowed_set_forbidden_witness:
  "bearer_token (authorization (demo_http (Some ''Bearer access-u1''))) = Some ''access-u1''
   \<and> verifyAccessToken demo_env (demo_parse ''access-u1'') 6000
       = Inr (claims_of (demo_access ''u1''))
   \<and> findById [alice] ''u1'' = Some alice \<and> role alice = ''viewer''
   \<and> userRoutes demo_env demo_parse [alice] (demo_http (Some ''Bearer access-u1'')) 6000
       = Responded (failure 403 ''User role 'viewer' is not authorized to access this route'')"
proof -
  have b: "bearer_token (authorization (demo_http (Some ''Bearer access-u1'')))
      = Some ''access-u1''"
    by (simp add: demo_http_def bearer_token_def)
  have n: "''access-u1'' \<noteq> []" by simp
  have v: "verifyAccessToken demo_env (demo_parse ''access-u1'') 6000
        = Inr (claims_of (demo_access ''u1''))"
    by (simp add: verifyAccessToken_def jwt_verify_def demo_parse_def demo_access_def
        demo_env_def truthy_def)
  have f: "findById [alice] (userId (claims_of (demo_access ''u1''))) = Some alice"
    by (simp add: findById_def alice_def demo_access_def)
  have r: "role alice \<notin> set [''admin'']" by (simp add: alice_def)
  have ra: "role alice = ''viewer''" by (simp add: alice_def)
  have id: "userId (claims_of (demo_access ''u1'')) = ''u1''" by (simp add: demo_access_def)
  from role_outside_allowed_set_forbidden [where parse = demo_parse, OF b n v f r] b v f ra id
  show ?thesis
    by simp
qed

section \<open>Properties of the activity log\<close>

text \<open>
  Claim C9. Whatever its input and whatever the write does, the promise of
  \<open>logActivity\<close> resolves: a failed write leaves the collections as they were and
  adds a line to the console. The response of the login controller and the users
  collection it leaves are the same whether or not the write fails.
\<close>

theorem logActivity_never_rejects:
  "fst (logActivity write_error srv a) = Inr ()
 \<and> users_db (snd (logActivity write_error srv a)) = users_db srv
 \<and> ((\<forall>entry. write_error entry = Some err) \<longrightarrow>
      snd (logActivity write_error srv a) =
        srv\<lparr>console := console srv @ [''Failed to create activity log: '' @ message err]\<rparr>)
 \<and> fst (login bc e write_error srv req now savedAt)
      = fst (login bc e write_error' srv req now savedAt)
 \<and> users_db (snd (login bc e write_error srv req now savedAt))
      = users_db (snd (login bc e write_error' srv req now savedAt))"
proof -
  have resolves: "fst (logActivity w s x) = Inr ()" for w s x
    by (simp add: logActivity_def split: sum.splits)
  have keeps: "users_db (snd (logActivity w s x)) = users_db s" for w s x
    by (simp add: logActivity_def split: sum.splits)
  have fails: "snd (logActivity write_error srv a) =
        srv\<lparr>console := console srv @ [''Failed to create activity log: '' @ message err]\<rparr>"
    if "\<forall>entry. write_error entry = Some err"
    using that by (simp add: logActivity_def createActivityLog_def)
  have resp: "fst (login bc e w srv req now savedAt) = fst (login bc e w' srv req now savedAt)"
    for w w'
    by (simp add: login_def split: option.splits prod.splits sum.splits)
  have db: "users_db (snd (login bc e w srv req now savedAt))
      = users_db (snd (login bc e w' srv req now savedAt))" for w w'
    by (simp add: login_def keeps split: option.splits prod.splits sum.splits)
  from resolves keeps fails resp db show ?thesis by blast
qed

theorem logActivity_never_rejects_witness:
  "(\<forall>entry. (\<lambda>_. Some (Error ''no connection'')) (entry::logData) = Some (Error ''no connection''))
 \<and> logActivity (\<lambda>_. Some (Error ''no connection''))
      \<lparr>users_db = [alice], activity_logs = [], console = []\<rparr>
      \<lparr>act_userId = ''u1'', act_action = ''login'', act_entityType = Some ''auth'',
       act_entityId = None, act_details = ''{}'', act_req = None\<rparr>
    = (Inr (), \<lparr>users_db = [alice], activity_logs = [],
                console = [''Failed to create activity log: no connection'']\<rparr>)"
proof -
  let ?w = "\<lambda>_::logData. Some (Error ''no connection'')"
  let ?srv = "\<lparr>users_db = [alice], activity_logs = [], console = []\<rparr>"
  let ?a = "\<lparr>act_userId = ''u1'', act_action = ''login'', act_entityType = Some ''auth'',
       act_entityId = None, act_details = ''{}'', act_req = None\<rparr>"
  have h: "\<forall>entry. ?w entry = Some (Error ''no connection'')" by simp
  from logActivity_never_rejects [where write_error = ?w and srv = ?srv and a = ?a
      and err = "Error ''no connection''"] h
  have "fst (logActivity ?w ?srv ?a) = Inr ()"
    and "snd (logActivity ?w ?srv ?a) =
        ?srv\<lparr>console := console ?srv @ [''Failed to create activity log: '' @
                                         message (Error ''no connection'')]\<rparr>"
    by blast+
  then show ?thesis by (simp add: prod_eq_iff)
qed

text \<open>The logout controller records a \<open>logout\<close> event when \<open>req.user\<close> is set:\<close>

lemma logout_records_known_user:
  assumes "user req = Some p" and "userId p \<noteq> []" and "\<forall>entry. write_error entry = None"
  shows "\<exists>entry. activity_logs (snd (logout write_error srv req)) = activity_logs srv @ [entry]
           \<and> log_userId entry = userId p \<and> log_action entry = ''logout''"
  using assms by (simp add: logout_def logActivity_def createActivityLog_def)

text \<open>
  Claim C8 asks that every logout records a \<open>logout\<close> event for the identity logging
  out. The route \<open>POST /logout\<close> is mounted without \<open>protect\<close>, so \<open>req.user\<close> is
  never set there: whatever the request carries, a valid bearer token included, the
  logout answers 200 and leaves the activity log, and the whole state, as it was.
\<close>

theorem post_logout_records_nothing:
  "snd (post_logout write_error srv h) = srv
 \<and> res_status (fst (post_logout write_error srv h)) = 200"
  by (simp add: post_logout_def logout_def)

section \<open>Properties of login\<close>

text \<open>The lookup finds a user under any casing and padding of the stored e-mail.\<close>

lemma findOne_email_casts_query:
  "findOne_email [alice, bob] ''ALICE@Example.com'' = Some alice"
  "findOne_email [alice, bob] ''  Bob@EXAMPLE.com '' = Some bob"
  by (simp_all add: findOne_email_def cast_email_def trim_def toLowerCase_def
      toLowerCase_char_def is_space_def alice_def bob_def)

lemma pre_save_unmodified_password:
  "''password'' \<notin> set (modifiedPaths d) \<Longrightarrow> pre_save bc d = d"
  by (simp add: pre_save_def isModified_def)

lemma save_after_set_lastLogin:
  "save bc db (set_lastLogin (hydrate u) now) savedAt =
     (if lastLogin u = Some now then (\<lparr>doc = u, modifiedPaths = []\<rparr>, db)
      else (\<lparr>doc = u\<lparr>lastLogin := Some now, updatedAt := savedAt\<rparr>, modifiedPaths = []\<rparr>,
            replaceById db (u\<lparr>lastLogin := Some now, updatedAt := savedAt\<rparr>)))"
  by (simp add: save_def set_lastLogin_def hydrate_def pre_save_def isModified_def Let_def)

lemma loginUser_success:
  assumes "loginUser bc e db mail pw now savedAt = (Inr res, db')"
  shows "\<exists>u. findOne_email db mail = Some u \<and> data_id (result_user res) = oid u \<and>
             db' = (if lastLogin u = Some now then db
                    else replaceById db (u\<lparr>lastLogin := Some now, updatedAt := savedAt\<rparr>))"
proof (cases "findOne_email db mail")
  case None
  with assms show ?thesis by (simp add: loginUser_def)
next
  case (Some u)
  with assms show ?thesis
    by (auto simp: loginUser_def save_after_set_lastLogin split: if_splits sum.splits)
qed

lemma same_oid_same_user:
  assumes "distinct (map oid db)" and "u \<in> set db" and "v \<in> set db" and "oid v = oid u"
  shows "v = u"
proof -
  from assms(1) have "inj_on oid (set db)" by (simp add: distinct_map)
  with assms(2-4) show ?thesis by (auto dest: inj_onD)
qed

text \<open>
  Claim C10. After a successful login, under whatever spelling of the e-mail the lookup
  accepts, the users collection has the same documents as before, each with the same fields apart from \<open>lastLogin\<close> and \<open>updatedAt\<close>; in
  particular every password hash is unchanged. Documents of other users are untouched, and
  the document of the user who logged in has \<open>lastLogin\<close> equal to the login time and
  \<open>updatedAt\<close> either unchanged or equal to the time of the save.
\<close>

theorem loginUser_changes_only_lastLogin:
  assumes "distinct (map oid db)"
    and "loginUser bc e db mail pw now savedAt = (Inr res, db')"
  shows "length db' = length db
       \<and> (\<forall>i<length db.
            password (db' ! i) = password (db ! i)
          \<and> (db' ! i)\<lparr>lastLogin := lastLogin (db ! i), updatedAt := updatedAt (db ! i)\<rparr> = db ! i
          \<and> (oid (db ! i) \<noteq> data_id (result_user res) \<longrightarrow> db' ! i = db ! i)
          \<and> (oid (db ! i) = data_id (result_user res) \<longrightarrow>
               lastLogin (db' ! i) = Some now \<and>
               (updatedAt (db' ! i) = updatedAt (db ! i) \<or> updatedAt (db' ! i) = savedAt)))"
proof -
  from loginUser_success [OF assms(2)] obtain u where
    found: "findOne_email db mail = Some u" and
    rid: "data_id (result_user res) = oid u" and
    db': "db' = (if lastLogin u = Some now then db
                 else replaceById db (u\<lparr>lastLogin := Some now, updatedAt := savedAt\<rparr>))"
    by blast
  from found have mem: "u \<in> set db"
    by (auto simp: findOne_email_def find_Some_iff)
  have len: "length db' = length db"
    by (simp add: db' replaceById_def)
  have each: "password (db' ! i) = password (db ! i)
          \<and> (db' ! i)\<lparr>lastLogin := lastLogin (db ! i), updatedAt := updatedAt (db ! i)\<rparr> = db ! i
          \<and> (oid (db ! i) \<noteq> data_id (result_user res) \<longrightarrow> db' ! i = db ! i)
          \<and> (oid (db ! i) = data_id (result_user res) \<longrightarrow>
               lastLogin (db' ! i) = Some now \<and>
               (updatedAt (db' ! i) = updatedAt (db ! i) \<or> updatedAt (db' ! i) = savedAt))"
    if i: "i < length db" for i
  proof (cases "oid (db ! i) = oid u")
    case True
    from i have "db ! i \<in> set db" by simp
    with True mem assms(1) have eq: "db ! i = u" by (rule_tac same_oid_same_user)
    show ?thesis
    proof (cases "lastLogin u = Some now")
      case True
      with eq show ?thesis by (simp add: db')
    next
      case False
      with eq i show ?thesis by (simp add: db' replaceById_def rid)
    qed
  next
    case False
    with i show ?thesis by (simp add: db' replaceById_def rid)
  qed
  from len each show ?thesis by blast
qed

theorem loginUser_changes_only_lastLogin_witness:
  "distinct (map oid [alice, bob])
 \<and> loginUser demo_bcrypt demo_env [alice, bob] '' ALICE@Example.com '' ''hash'' 7000 7001
     = (Inr \<lparr>result_user =
               \<lparr>data_id = ''u1'', data_email = ''alice@example.com'', data_name = ''Alice'',
                data_role = ''viewer'', data_isActive = True, data_createdAt = 1000,
                data_updatedAt = 7001\<rparr>,
             result_accessToken =
               Signed ''a'' \<lparr>userId = ''u1'', ptype = None, iat = 7, exp = 907\<rparr>,
             result_refreshToken =
               Signed ''r'' \<lparr>userId = ''u1'', ptype = Some ''refresh'', iat = 7,
                             exp = 604807\<rparr>\<rparr>,
        [alice\<lparr>lastLogin := Some 7000, updatedAt := 7001\<rparr>, bob])
 \<and> password ([alice\<lparr>lastLogin := Some 7000, updatedAt := 7001\<rparr>, bob] ! 0) = password alice
 \<and> lastLogin ([alice\<lparr>lastLogin := Some 7000, updatedAt := 7001\<rparr>, bob] ! 0) = Some 7000
 \<and> [alice\<lparr>lastLogin := Some 7000, updatedAt := 7001\<rparr>, bob] ! 1 = bob"
proof -
  let ?res = "\<lparr>result_user =
               \<lparr>data_id = ''u1'', data_email = ''alice@example.com'', data_name = ''Alice'',
                data_role = ''viewer'', data_isActive = True, data_createdAt = 1000,
                data_updatedAt = 7001\<rparr>,
             result_accessToken =
               Signed ''a'' \<lparr>userId = ''u1'', ptype = None, iat = 7, exp = 907\<rparr>,
             result_refreshToken =
               Signed ''r'' \<lparr>userId = ''u1'', ptype = Some ''refresh'', iat = 7,
                             exp = 604807\<rparr>\<rparr>"
  let ?db' = "[alice\<lparr>lastLogin := Some 7000, updatedAt := 7001\<rparr>, bob]"
  have d: "distinct (map oid [alice, bob])"
    by (simp add: alice_def bob_def)
  have l: "loginUser demo_bcrypt demo_env [alice, bob] '' ALICE@Example.com '' ''hash'' 7000 7001
     = (Inr ?res, ?db')"
    by (simp add: loginUser_def findOne_email_def cast_email_def trim_def toLowerCase_def
        toLowerCase_char_def is_space_def alice_def bob_def demo_bcrypt_def
        comparePassword_def save_after_set_lastLogin replaceById_def generateTokens_def
        jwt_sign_def demo_env_def ACCESS_TOKEN_EXPIRY_def REFRESH_TOKEN_EXPIRY_def)
  have i0: "(0::nat) < length [alice, bob]" and i1: "(1::nat) < length [alice, bob]"
    by simp_all
  have o0: "oid ([alice, bob] ! 0) = data_id (result_user ?res)"
    and o1: "oid ([alice, bob] ! 1) \<noteq> data_id (result_user ?res)"
    by (simp_all add: alice_def bob_def)
  from loginUser_changes_only_lastLogin [OF d l] i0 o0
  have c0: "password (?db' ! 0) = password ([alice, bob] ! 0) \<and> lastLogin (?db' ! 0) = Some 7000"
    by blast
  from loginUser_changes_only_lastLogin [OF d l] i1 o1
  have c1: "?db' ! 1 = [alice, bob] ! 1"
    by blast
  from d l c0 c1 show ?thesis by simp
qed

section \<open>Properties of the client session\<close>

declare apiClient.simps [simp del]

lemma request_interceptor_keeps [simp]:
  "cfg_retry (request_interceptor b cfg) = cfg_retry cfg"
  "cfg_url (request_interceptor b cfg) = cfg_url cfg"
  by (simp_all add: request_interceptor_def split: option.splits)

lemma apiClient_retried:
  assumes "cfg_retry cfg"
  shows "apiClient net (b, log) cfg =
     ((case net log (ViaClient (request_interceptor b cfg)) of
         None \<Rightarrow> Rejected (AxiosError None)
       | Some r \<Rightarrow> if ok_status r then Resolved r else Rejected (AxiosError (Some r))),
      b, log @ [ViaClient (request_interceptor b cfg)])"
  using assms by (subst apiClient.simps) (simp add: Let_def split: option.splits)

text \<open>
  Claim C7. Whatever the network answers, one call of \<open>apiClient\<close> sends the request,
  then at most one refresh post, then at most one re-issue of the request, which carries
  the \<open>_retry\<close> flag of that request; nothing is sent after the re-issue. A request that
  carries the flag is sent once, triggers no refresh and no further retry, and leaves the
  stored session untouched, whatever its response, a 401 included.
\<close>

theorem retried_at_most_once:
  "(snd (snd (apiClient net (b, log) cfg)) = log @ [ViaClient (request_interceptor b cfg)]
    \<or> (\<exists>t. snd (snd (apiClient net (b, log) cfg))
              = log @ [ViaClient (request_interceptor b cfg), RefreshPost t])
    \<or> (\<exists>t r'. snd (snd (apiClient net (b, log) cfg))
              = log @ [ViaClient (request_interceptor b cfg), RefreshPost t, ViaClient r']
            \<and> cfg_retry r' \<and> cfg_url r' = cfg_url cfg))
 \<and> (cfg_retry cfg \<longrightarrow>
      snd (snd (apiClient net (b, log) cfg)) = log @ [ViaClient (request_interceptor b cfg)]
      \<and> fst (snd (apiClient net (b, log) cfg)) = b)"
proof (cases "cfg_retry cfg")
  case True
  then show ?thesis by (simp add: apiClient_retried)
next
  case False
  then show ?thesis
    by (subst (1 2 3 4 5) apiClient.simps)
       (auto simp: Let_def apiClient_retried split: option.splits)
qed


theorem retried_at_most_once_witness:
  "cfg_retry (get_kpis\<lparr>cfg_retry := True\<rparr>)
 \<and> snd (snd (apiClient demo_net
        (\<lparr>ACCESS_TOKEN = Some ''access-1'', REFRESH_TOKEN = Some ''refresh-1'',
          USER = Some ''alice'', pathname = ''/dashboard''\<rparr>, [])
        (get_kpis\<lparr>cfg_retry := True\<rparr>)))
     = [ViaClient \<lparr>cfg_url = ''/dashboard/kpis'', cfg_Authorization = Some ''Bearer access-1'',
                   cfg_retry = True\<rparr>]
 \<and> fst (snd (apiClient demo_net
        (\<lparr>ACCESS_TOKEN = Some ''access-1'', REFRESH_TOKEN = Some ''refresh-1'',
          USER = Some ''alice'', pathname = ''/dashboard''\<rparr>, [])
        (get_kpis\<lparr>cfg_retry := True\<rparr>)))
     = \<lparr>ACCESS_TOKEN = Some ''access-1'', REFRESH_TOKEN = Some ''refresh-1'',
        USER = Some ''alice'', pathname = ''/dashboard''\<rparr>"
proof -
  have r: "cfg_retry (get_kpis\<lparr>cfg_retry := True\<rparr>)" by simp
  from retried_at_most_once [where cfg = "get_kpis\<lparr>cfg_retry := True\<rparr>" and net = demo_net
      and log = "[]"
      and b = "\<lparr>ACCESS_TOKEN = Some ''access-1'', REFRESH_TOKEN = Some ''refresh-1'',
          USER = Some ''alice'', pathname = ''/dashboard''\<rparr>"] r
  show ?thesis
    by (simp add: request_interceptor_def getAccessToken_def get_kpis_def)
qed

text \<open>
  The login page stores no refresh token, and a client without a stored refresh token
  never posts to the refresh endpoint: whatever the network answers, the request is sent
  once, and a response outside 2xx reaches the caller as the rejection.
\<close>

lemma onSubmit_success_refresh_token:
  "REFRESH_TOKEN (snd (onSubmit_success sb u tok)) = REFRESH_TOKEN (snd sb)"
  by (simp add: onSubmit_success_def setCredentials_def setAccessToken_def setUser_def
      truthy_def Let_def split: prod.splits)

lemma no_stored_refresh_token_no_refresh:
  assumes "REFRESH_TOKEN b = None"
  shows "snd (snd (apiClient net (b, log) cfg)) = log @ [ViaClient (request_interceptor b cfg)]"
    and "net log (ViaClient (request_interceptor b cfg)) = Some r \<Longrightarrow> \<not> ok_status r \<Longrightarrow>
         fst (apiClient net (b, log) cfg) = Rejected (AxiosError (Some r))"
  using assms
  by (subst apiClient.simps, simp add: Let_def getRefreshToken_def split: option.splits)+

text \<open>With a refresh token in storage the interceptor does refresh and retry:\<close>

lemma refresh_flow_with_stored_token:
  "apiClient demo_net
     (\<lparr>ACCESS_TOKEN = Some ''access-1'', REFRESH_TOKEN = Some ''refresh-1'',
       USER = Some ''alice'', pathname = ''/dashboard''\<rparr>, []) get_kpis
     = (Resolved \<lparr>status = 200, data_data = None\<rparr>,
        \<lparr>ACCESS_TOKEN = Some ''access-2'', REFRESH_TOKEN = Some ''refresh-1'',
         USER = Some ''alice'', pathname = ''/dashboard''\<rparr>,
        [ViaClient \<lparr>cfg_url = ''/dashboard/kpis'',
                    cfg_Authorization = Some ''Bearer access-1'', cfg_retry = False\<rparr>,
         RefreshPost ''refresh-1'',
         ViaClient \<lparr>cfg_url = ''/dashboard/kpis'',
                    cfg_Authorization = Some ''Bearer access-2'', cfg_retry = True\<rparr>])"
  by (subst apiClient.simps)
     (simp add: get_kpis_def request_interceptor_def getAccessToken_def
        getRefreshToken_def demo_net_def ok_status_def setAccessToken_def js_string_def
        apiClient_retried Let_def)

text \<open>
  Claim C1 asks that, in a session established by a successful login, a 401 for an expired
  access token triggers a refresh and a retry that the caller does not notice. In the
  session the login page establishes from an empty browser, against a server that would
  accept the refresh and the retried request, the call to a protected endpoint is sent
  once, no refresh is posted, the caller receives the 401, the stored session is cleared
  and the browser is sent to the login page.
\<close>

theorem expired_token_after_login_not_refreshed:
  "apiClient demo_net (snd (onSubmit_success fresh_session ''alice'' ''access-1''), []) get_kpis
     = (Rejected (AxiosError (Some \<lparr>status = 401, data_data = None\<rparr>)),
        \<lparr>ACCESS_TOKEN = None, REFRESH_TOKEN = None, USER = None, pathname = ''/login''\<rparr>,
        [ViaClient \<lparr>cfg_url = ''/dashboard/kpis'',
                    cfg_Authorization = Some ''Bearer access-1'', cfg_retry = False\<rparr>])"
  by (subst apiClient.simps)
     (simp add: onSubmit_success_def setCredentials_def fresh_session_def setAccessToken_def
        setUser_def truthy_def get_kpis_def request_interceptor_def getAccessToken_def
        getRefreshToken_def demo_net_def ok_status_def clearAuthData_def clearTokens_def
        removeUser_def redirect_to_login_def Let_def)

end
